theory Spec2Isabelle
  imports Main
begin

section \<open>The conversion script \<open>convert-font.py\<close>\<close>

text \<open>
  The whole program is
  \<^verbatim>\<open>
  woff2_path = sys.argv[1]
  ttf_path = sys.argv[2]

  font = TTFont(woff2_path)
  font.flavor = None  # Remove WOFF2 flavor
  font.save(ttf_path)
  print(f"Converted {woff2_path} to {ttf_path}")
  \<close>
  It is embedded as one state-passing function \<open>main\<close>. The state is the part of the world
  the script touches: the files and standard output. \<open>TTFont\<close> and \<open>save\<close> belong to
  fontTools, which is not part of the program: they are parameters of \<open>main\<close>.
\<close>

subsection \<open>Data\<close>

type_synonym path = string

text \<open>The files, by path, with contents of any type \<open>'b\<close>; \<open>None\<close> is a path with no file.\<close>

type_synonym 'b filesystem = "path \<rightharpoonup> 'b"

record 'b world =
  files :: "'b filesystem"
  stdout :: string

text \<open>
  The font handle. The script reads nothing of it and assigns one attribute, \<open>flavor\<close>;
  everything else the handle holds is \<open>tables\<close>, of any type \<open>'t\<close>.
\<close>

record 't font =
  flavor :: "string option"
  tables :: 't

text \<open>
  What reaches the process boundary uncaught: the \<open>IndexError\<close> of a subscript of
  \<open>sys.argv\<close>, or an exception \<open>e\<close> of the library, carried as it was raised.
\<close>

datatype 'e exn = IndexError | Raised 'e

text \<open>
  The two library operations the script calls. The constructor reads the files and returns
  a handle or raises. \<open>save\<close> returns the exception it raised, if any, and the files as it
  left them: a save that raises may have written already.
\<close>

record ('e, 't, 'b) ttLib =
  TTFont :: "path \<Rightarrow> 'b filesystem \<Rightarrow> 'e + 't font"
  save :: "'t font \<Rightarrow> path \<Rightarrow> 'b filesystem \<Rightarrow> 'e option \<times> 'b filesystem"

subsection \<open>Operations\<close>

text \<open>\<open>xs[i]\<close> for an index \<open>i \<ge> 0\<close>: Python raises \<open>IndexError\<close> out of range.\<close>

definition subscript :: "'a list \<Rightarrow> nat \<Rightarrow> 'e exn + 'a" where
  "subscript xs i = (if i < length xs then Inr (xs ! i) else Inl IndexError)"

text \<open>
  \<open>print(s)\<close>: the text and a newline, appended to standard output. Writing to standard
  output is taken to succeed.
\<close>

definition print :: "string \<Rightarrow> 'b world \<Rightarrow> 'b world" where
  "print s w = w\<lparr>stdout := stdout w @ s @ [CHR 0x0A]\<rparr>"

text \<open>
  The script, statement by statement. \<open>argv\<close> is \<open>sys.argv\<close>, the program's name first.
  There is no \<open>try\<close>: the first exception ends the run, with the world as it is then.
\<close>

definition main :: "('e, 't, 'b) ttLib \<Rightarrow> string list \<Rightarrow> 'b world \<Rightarrow> ('e exn + unit) \<times> 'b world" where
  "main L argv w =
    (case subscript argv 1 of
       Inl e \<Rightarrow> (Inl e, w)
     | Inr woff2_path \<Rightarrow>
    (case subscript argv 2 of
       Inl e \<Rightarrow> (Inl e, w)
     | Inr ttf_path \<Rightarrow>
    (case TTFont L woff2_path (files w) of
       Inl e \<Rightarrow> (Inl (Raised e), w)
     | Inr font \<Rightarrow>
    (let font = font\<lparr>flavor := None\<rparr> in
    (case save L font ttf_path (files w) of
       (Some e, fs) \<Rightarrow> (Inl (Raised e), w\<lparr>files := fs\<rparr>)
     | (None, fs) \<Rightarrow>
       (Inr (), print (''Converted '' @ woff2_path @ '' to '' @ ttf_path) (w\<lparr>files := fs\<rparr>)))))))"

text \<open>
  The interpreter's exit status: 0 when the script runs to its end, 1 when an exception
  reaches the top level.
\<close>

definition exit_status :: "'e exn + unit \<Rightarrow> nat" where
  "exit_status r = (case r of Inl _ \<Rightarrow> 1 | Inr _ \<Rightarrow> 0)"

subsection \<open>A stand-in library for concrete runs\<close>

text \<open>
  To run \<open>main\<close> on concrete inputs the parameters need values. This stand-in keeps a
  font file as its flavor and its tables; opening a missing path or saving to the empty
  path raises \<open>FileNotFoundError\<close>, opening a file that is no font raises \<open>TTLibError\<close>.
  No theorem about \<open>main\<close> is proved for this library only.
\<close>

datatype stub_error = FileNotFoundError | TTLibError

datatype 't stub_file = Sfnt "string option" 't | NotAFont

definition stub_TTFont :: "path \<Rightarrow> 't stub_file filesystem \<Rightarrow> stub_error + 't font" where
  "stub_TTFont p fs =
    (case fs p of
       None \<Rightarrow> Inl FileNotFoundError
     | Some NotAFont \<Rightarrow> Inl TTLibError
     | Some (Sfnt fl t) \<Rightarrow> Inr \<lparr>flavor = fl, tables = t\<rparr>)"

definition stub_save ::
  "'t font \<Rightarrow> path \<Rightarrow> 't stub_file filesystem \<Rightarrow> stub_error option \<times> 't stub_file filesystem" where
  "stub_save f p fs =
    (if p = [] then (Some FileNotFoundError, fs)
     else (None, fs(p \<mapsto> Sfnt (flavor f) (tables f))))"

definition stub_lib :: "(stub_error, 't, 't stub_file) ttLib" where
  "stub_lib = \<lparr>TTFont = stub_TTFont, save = stub_save\<rparr>"

text \<open>A world with one WOFF2 file, one plain TTF file and one file that is no font.\<close>

definition world0 :: "string list stub_file world" where
  "world0 =
    \<lparr>files = [''a.woff2'' \<mapsto> Sfnt (Some ''woff2'') [''glyf'', ''head''],
              ''c.ttf'' \<mapsto> Sfnt None [''glyf'', ''head''],
              ''notes.txt'' \<mapsto> NotAFont],
     stdout = []\<rparr>"

subsection \<open>What the script relies on from the library\<close>

text \<open>
  The claims about files speak of what fontTools does as well as of the script. Each
  property of the library that such a claim needs is a named assumption on the parameter
  \<open>L\<close>; the stand-in library has all of them.
\<close>





section \<open>Properties\<close>

subsection \<open>Shared facts\<close>

lemma main_short_argv: "length argv < 3 \<Longrightarrow> main L argv w = (Inl IndexError, w)"
  by (simp add: main_def subscript_def)




text \<open>A run that completes went through all three steps.\<close>

lemma main_Inr_cases:
  assumes "main L argv w = (Inr u, w')"
  obtains g fs where "2 < length argv"
    and "TTFont L (argv ! 1) (files w) = Inr g"
    and "save L (g\<lparr>flavor := None\<rparr>) (argv ! 2) (files w) = (None, fs)"
    and "w' = print (''Converted '' @ argv ! 1 @ '' to '' @ argv ! 2) (w\<lparr>files := fs\<rparr>)"
  using assms
  by (auto simp: main_def subscript_def Let_def split: if_splits sum.splits prod.splits option.splits)

lemma stub_open_a:
  "TTFont stub_lib ''a.woff2'' (files world0) = Inr \<lparr>flavor = Some ''woff2'', tables = [''glyf'', ''head'']\<rparr>"
  by (simp add: stub_lib_def stub_TTFont_def world0_def)

lemma stub_run_a_b:
  "main stub_lib [''convert-font.py'', ''a.woff2'', ''b.ttf''] world0 =
    (Inr (), \<lparr>files = (files world0)(''b.ttf'' \<mapsto> Sfnt None [''glyf'', ''head'']),
              stdout = ''Converted a.woff2 to b.ttf'' @ [CHR 0x0A]\<rparr>)"
  by (simp add: main_def subscript_def stub_lib_def stub_TTFont_def stub_save_def world0_def print_def)






lemma stub_run_unwritable:
  "main stub_lib [''convert-font.py'', ''a.woff2'', []] world0 =
    (Inl (Raised FileNotFoundError), world0)"
  by (simp add: main_def subscript_def stub_lib_def stub_TTFont_def stub_save_def world0_def)

subsection \<open>The flavor at the time of the save\<close>

text \<open>
  C1. In every run that completes, the handle that \<open>save\<close> receives is the handle the
  constructor returned with its flavor set to \<open>None\<close>, whatever flavor it was loaded with,
  and the files after the run are the ones that \<open>save\<close> call left.
\<close>

theorem flavor_none_at_save:
  assumes "main L argv w = (Inr (), w')"
  shows "\<exists>g f. TTFont L (argv ! 1) (files w) = Inr g \<and> f = g\<lparr>flavor := None\<rparr> \<and>
           flavor f = None \<and> save L f (argv ! 2) (files w) = (None, files w')"
proof -
  from assms obtain g fs where
    g: "TTFont L (argv ! 1) (files w) = Inr g"
    and s: "save L (g\<lparr>flavor := None\<rparr>) (argv ! 2) (files w) = (None, fs)"
    and w': "w' = print (''Converted '' @ argv ! 1 @ '' to '' @ argv ! 2) (w\<lparr>files := fs\<rparr>)"
    by (rule main_Inr_cases)
  from w' have "files w' = fs" by (simp add: print_def)
  with g s show ?thesis by simp
qed

theorem flavor_none_at_save_witness:
  "fst (main stub_lib [''convert-font.py'', ''a.woff2'', ''b.ttf''] world0) = Inr () \<and>
   (\<exists>g f. TTFont stub_lib ''a.woff2'' (files world0) = Inr g \<and> flavor g = Some ''woff2'' \<and>
      f = g\<lparr>flavor := None\<rparr> \<and> flavor f = None \<and>
      fst (save stub_lib f ''b.ttf'' (files world0)) = None)"
proof -
  note run = stub_run_a_b
  from flavor_none_at_save [OF run] stub_open_a run show ?thesis by auto
qed

subsection \<open>Standard output\<close>



text \<open>
  C10. A run that ends in an exception, whether from the arguments, the constructor or
  \<open>save\<close>, leaves standard output as it was: the message is printed after \<open>save\<close> has
  returned, or not at all.
\<close>

theorem no_output_on_failure:
  assumes "main L argv w = (Inl e, w')"
  shows "stdout w' = stdout w"
  using assms
  by (auto simp: main_def subscript_def Let_def split: if_splits sum.splits prod.splits option.splits)

theorem no_output_on_failure_witness:
  "fst (main stub_lib [''convert-font.py'', ''a.woff2'', []] world0) = Inl (Raised FileNotFoundError) \<and>
   stdout (snd (main stub_lib [''convert-font.py'', ''a.woff2'', []] world0)) = []"
proof -
  note run = stub_run_unwritable
  from no_output_on_failure [OF run] run show ?thesis by (simp add: world0_def)
qed

subsection \<open>The command line\<close>

text \<open>
  C3. With no path argument or one (\<open>sys.argv\<close> shorter than three entries), the run ends
  in \<open>IndexError\<close> with a non-zero exit status, and the world, every file included, is as
  it was: the library is never called.
\<close>

theorem too_few_arguments:
  assumes "length argv < 3"
  shows "fst (main L argv w) = Inl IndexError \<and> exit_status (fst (main L argv w)) \<noteq> 0 \<and>
         snd (main L argv w) = w"
  using assms by (simp add: main_short_argv exit_status_def)

theorem too_few_arguments_witness:
  "length [''convert-font.py''] < 3 \<and> length [''convert-font.py'', ''a.woff2''] < 3 \<and>
   fst (main stub_lib [''convert-font.py''] world0) = Inl IndexError \<and>
   fst (main stub_lib [''convert-font.py'', ''a.woff2''] world0) = Inl IndexError \<and>
   exit_status (fst (main stub_lib [''convert-font.py'', ''a.woff2''] world0)) \<noteq> 0 \<and>
   snd (main stub_lib [''convert-font.py'', ''a.woff2''] world0) = world0"
proof -
  have n0: "length [''convert-font.py''] < 3" and n1: "length [''convert-font.py'', ''a.woff2''] < 3"
    by simp_all
  from too_few_arguments [OF n0, of stub_lib world0] too_few_arguments [OF n1, of stub_lib world0] n0 n1
  show ?thesis by blast
qed

text \<open>
  C4, as the code has it. The script reads \<open>sys.argv[1]\<close> and \<open>sys.argv[2]\<close> and never
  looks at the length of the command line: with a third path argument the run below
  completes, with exit status 0.
\<close>

theorem extra_arguments_succeed_counterexample:
  "fst (main stub_lib [''convert-font.py'', ''a.woff2'', ''b.ttf'', ''extra''] world0) = Inr () \<and>
   exit_status (fst (main stub_lib [''convert-font.py'', ''a.woff2'', ''b.ttf'', ''extra''] world0)) = 0"
  by (simp add: main_def subscript_def stub_lib_def stub_TTFont_def stub_save_def world0_def
      exit_status_def)

text \<open>
  C4, amended. Arguments after the second are ignored: the run is the run on the first two
  arguments, and it never ends in the \<open>IndexError\<close> of a subscript of \<open>sys.argv\<close>.
\<close>

theorem extra_arguments_ignored:
  "main L (prog # s # d # extra) w = main L [prog, s, d] w \<and>
   fst (main L (prog # s # d # extra) w) \<noteq> Inl IndexError"
  by (simp add: main_def subscript_def Let_def split: sum.splits prod.splits option.splits)

theorem extra_arguments_ignored_witness:
  "main stub_lib [''convert-font.py'', ''a.woff2'', ''b.ttf'', ''x'', ''y''] world0 =
     main stub_lib [''convert-font.py'', ''a.woff2'', ''b.ttf''] world0 \<and>
   fst (main stub_lib [''convert-font.py'', ''a.woff2'', ''b.ttf'', ''x'', ''y''] world0) = Inr ()"
  using extra_arguments_ignored [of stub_lib "''convert-font.py''" "''a.woff2''" "''b.ttf''"
      "[''x'', ''y'']" world0] stub_run_a_b
  by simp

subsection \<open>Errors\<close>



text \<open>
  C6. The outcome of a run is decided by the first step that raises, and is that step's
  exception as raised: \<open>IndexError\<close> when \<open>sys.argv\<close> has fewer than three entries,
  otherwise the constructor's exception, otherwise the exception of \<open>save\<close>, otherwise
  completion. The exit status is 0 exactly when the run completed.
\<close>

theorem errors_propagate:
  "fst (main L argv w) =
    (if length argv < 3 then Inl IndexError
     else case TTFont L (argv ! 1) (files w) of
            Inl e \<Rightarrow> Inl (Raised e)
          | Inr g \<Rightarrow>
             (case fst (save L (g\<lparr>flavor := None\<rparr>) (argv ! 2) (files w)) of
                Some e \<Rightarrow> Inl (Raised e)
              | None \<Rightarrow> Inr ())) \<and>
   (exit_status (fst (main L argv w)) = 0 \<longleftrightarrow> fst (main L argv w) = Inr ()) \<and>
   (exit_status (fst (main L argv w)) \<noteq> 0 \<longleftrightarrow> (\<exists>e. fst (main L argv w) = Inl e))"
  by (auto simp: main_def subscript_def Let_def exit_status_def
      split: sum.splits prod.splits option.splits)

theorem errors_propagate_witness:
  "fst (main stub_lib [''convert-font.py'', ''notes.txt'', ''b.ttf''] world0) = Inl (Raised TTLibError) \<and>
   exit_status (fst (main stub_lib [''convert-font.py'', ''notes.txt'', ''b.ttf''] world0)) \<noteq> 0 \<and>
   fst (main stub_lib [''convert-font.py'', ''a.woff2'', []] world0) = Inl (Raised FileNotFoundError) \<and>
   exit_status (fst (main stub_lib [''convert-font.py'', ''a.woff2'', []] world0)) \<noteq> 0 \<and>
   exit_status (fst (main stub_lib [''convert-font.py'', ''a.woff2'', ''b.ttf''] world0)) = 0"
proof -
  let ?nofont = "[''convert-font.py'', ''notes.txt'', ''b.ttf'']"
  let ?nodest = "[''convert-font.py'', ''a.woff2'', []]"
  let ?good = "[''convert-font.py'', ''a.woff2'', ''b.ttf'']"
  note p = errors_propagate [of stub_lib ?nofont world0]
  note s = errors_propagate [of stub_lib ?nodest world0]
  note g = errors_propagate [of stub_lib ?good world0]
  have 1: "fst (main stub_lib ?nofont world0) = Inl (Raised TTLibError)"
    using p [THEN conjunct1] by (simp add: stub_lib_def stub_TTFont_def world0_def)
  have 2: "fst (main stub_lib ?nodest world0) = Inl (Raised FileNotFoundError)"
    using s [THEN conjunct1] by (simp add: stub_lib_def stub_TTFont_def stub_save_def world0_def)
  have 3: "fst (main stub_lib ?good world0) = Inr ()"
    using g [THEN conjunct1] by (simp add: stub_lib_def stub_TTFont_def stub_save_def world0_def)
  from 1 p have 4: "exit_status (fst (main stub_lib ?nofont world0)) \<noteq> 0" by blast
  from 2 s have 5: "exit_status (fst (main stub_lib ?nodest world0)) \<noteq> 0" by blast
  from 3 g have 6: "exit_status (fst (main stub_lib ?good world0)) = 0" by blast
  from 1 2 4 5 6 show ?thesis by blast
qed

subsection \<open>Files\<close>








end
